theory Spec2Isabelle
  imports Main
begin

section \<open>JavaScript values and the object heap\<close>

text \<open>
  The three services of the repository (\<open>CacheService\<close>, \<open>RateLimitGuard\<close>,
  \<open>TaskProcessorService\<close>) handle values of TypeScript type \<open>any\<close>. A value is
  a primitive or a reference to an object on the heap; an object is a \<open>Date\<close>, an array or a
  plain object with its own enumerable properties in enumeration order. The heap is a list of
  objects, an address is an index into it, and allocation appends. Numbers are integers
  (timestamps in milliseconds, counters); fractions and NaN are not modelled. There are no
  function values, and an object on the heap has no prototype slot of its own.
\<close>

type_synonym addr = nat

datatype jsval = Undefined | Null | Bool bool | Num int | Str string | Ref addr

datatype jsobj = DateObj int | ArrayObj "jsval list" | PlainObj "(string \<times> jsval) list"

type_synonym heap = "jsobj list"

text \<open>JavaScript truthiness, as \<open>!x\<close> tests it.\<close>

fun truthy :: "jsval \<Rightarrow> bool" where
  "truthy Undefined = False"
| "truthy Null = False"
| "truthy (Bool b) = b"
| "truthy (Num n) = (n \<noteq> 0)"
| "truthy (Str s) = (s \<noteq> [])"
| "truthy (Ref a) = True"

subsection \<open>\<open>CacheService.deepClone\<close>\<close>

text \<open>
  \<open>deepClone\<close> returns a primitive as it is, copies a \<open>Date\<close>, maps itself over an
  array and over the own properties of a plain object. It recurses without any check for cycles.
  The first argument is the number of nested calls the call stack still admits: a call with none
  left, and therefore every call on a cyclic value, ends in the engine's \<open>RangeError\<close>.
  The loop over a plain object calls \<open>obj.hasOwnProperty(key)\<close> on the object itself: when
  the object has an own property of that name, which is never a function here, the first round
  of the loop ends in a \<open>TypeError\<close>. Either exception is the result \<open>None\<close>. The
  assignment \<open>cloned[key] = \<dots>\<close> for the key \<open>__proto__\<close> runs the setter inherited from
  \<open>Object.prototype\<close> and creates no property: the value is copied and the property is
  missing in the copy (what the setter does to the prototype of the copy is beyond the object
  model). A reference outside the heap cannot occur in a running program and gives \<open>None\<close>
  as well. The copy of an object is appended to the heap once its parts are copied (addresses
  are not observable in JavaScript, so the order of allocation is immaterial).
\<close>

fun deepClone :: "nat \<Rightarrow> heap \<Rightarrow> jsval \<Rightarrow> (heap \<times> jsval) option"
  and cloneItems :: "nat \<Rightarrow> heap \<Rightarrow> jsval list \<Rightarrow> (heap \<times> jsval list) option"
  and cloneProps :: "nat \<Rightarrow> heap \<Rightarrow> (string \<times> jsval) list \<Rightarrow> (heap \<times> (string \<times> jsval) list) option"
where
  "deepClone 0 h v = None"
| "deepClone (Suc d) h (Ref a) =
     (if a < length h then
        (case h ! a of
           DateObj t \<Rightarrow> Some (h @ [DateObj t], Ref (length h))
         | ArrayObj vs \<Rightarrow>
             (case cloneItems d h vs of
                None \<Rightarrow> None
              | Some (h', vs') \<Rightarrow> Some (h' @ [ArrayObj vs'], Ref (length h')))
         | PlainObj ps \<Rightarrow>
             (if map_of ps ''hasOwnProperty'' \<noteq> None then None
              else (case cloneProps d h ps of
                      None \<Rightarrow> None
                    | Some (h', ps') \<Rightarrow> Some (h' @ [PlainObj ps'], Ref (length h')))))
      else None)"
| "deepClone (Suc d) h v = Some (h, v)"
| "cloneItems d h [] = Some (h, [])"
| "cloneItems d h (v # vs) =
     (case deepClone d h v of
        None \<Rightarrow> None
      | Some (h1, v') \<Rightarrow>
          (case cloneItems d h1 vs of
             None \<Rightarrow> None
           | Some (h2, vs') \<Rightarrow> Some (h2, v' # vs')))"
| "cloneProps d h [] = Some (h, [])"
| "cloneProps d h ((k, v) # ps) =
     (case deepClone d h v of
        None \<Rightarrow> None
      | Some (h1, v') \<Rightarrow>
          (case cloneProps d h1 ps of
             None \<Rightarrow> None
           | Some (h2, ps') \<Rightarrow>
               Some (h2, if k = ''__proto__'' then ps' else (k, v') # ps')))"

subsection \<open>Deep equality\<close>






section \<open>The cache: \<open>CacheService\<close>\<close>

text \<open>
  The cache is a JavaScript object used as a dictionary, \<open>Record<string, {value, expiresAt}>\<close>.
  Its own properties are the list of pairs that \<open>Object.keys\<close> enumerates: keys that are
  array indices first, in ascending numeric order, then all other keys in the order of their
  creation. \<open>set\<close> and \<open>get\<close> copy values and so work on the heap and the store; the other
  operations take and return the store alone.

  A read \<open>this.cache[key]\<close> of a key without an own property goes on to the prototype of the
  object, which is \<open>Object.prototype\<close> with its eleven methods and the accessor
  \<open>__proto__\<close>. An assignment to the key \<open>__proto__\<close> that finds no own property of
  that name runs the accessor: it creates no own property and makes the assigned entry the
  prototype of the cache object. The state keeps that entry (\<open>proto\<close>), and \<open>get\<close> reads
  it back under the key \<open>__proto__\<close>. The entry then also answers to the names \<open>value\<close>
  and \<open>expiresAt\<close>. What the operations answer for these two names without an own
  property, and what \<open>has\<close> answers for \<open>__proto__\<close> once the prototype is replaced,
  is not modelled, and no statement below is about it.
\<close>

record entry =
  val :: jsval
  expiresAt :: int

type_synonym store = "(string \<times> entry) list"

record state =
  heap :: heap
  cache :: store
  proto :: "entry option"

text \<open>What \<open>set\<close> throws: its own error for an invalid key, or the \<open>RangeError\<close> or
  \<open>TypeError\<close> of \<open>deepClone\<close>, which it rethrows.\<close>

datatype cache_error = InvalidCacheKey | CloneFailed

text \<open>The methods of \<open>Object.prototype\<close>, all its member names, and the names that can be
  found on the prototype chain of the cache object at all.\<close>

definition object_prototype_methods :: "string list" where
  "object_prototype_methods =
     [''constructor'', ''__defineGetter__'', ''__defineSetter__'', ''hasOwnProperty'',
      ''__lookupGetter__'', ''__lookupSetter__'', ''isPrototypeOf'', ''propertyIsEnumerable'',
      ''toString'', ''valueOf'', ''toLocaleString'']"

definition object_prototype_names :: "string list" where
  "object_prototype_names = ''__proto__'' # object_prototype_methods"


definition MAX_CACHE_SIZE :: nat where
  "MAX_CACHE_SIZE = 1000"

text \<open>A key is an array index when it is the canonical decimal form of a number below \<open>2^32 - 1\<close>.\<close>

definition digit_of :: "char \<Rightarrow> nat option" where
  "digit_of c = (let n = (of_char c :: nat) in if 48 \<le> n \<and> n \<le> 57 then Some (n - 48) else None)"

fun decimal :: "nat \<Rightarrow> string \<Rightarrow> nat option" where
  "decimal acc [] = Some acc"
| "decimal acc (c # cs) =
     (case digit_of c of None \<Rightarrow> None | Some n \<Rightarrow> decimal (10 * acc + n) cs)"

definition array_index :: "string \<Rightarrow> nat option" where
  "array_index k =
     (if k = [] then None
      else if hd k = CHR ''0'' \<and> length k > 1 then None
      else (case decimal 0 k of
              None \<Rightarrow> None
            | Some n \<Rightarrow> if n < 2 ^ 32 - 1 then Some n else None))"

text \<open>\<open>this.cache[key] = e\<close>: an existing property keeps its place, a new one is placed
  as \<open>Object.keys\<close> will enumerate it, and \<open>__proto__\<close> without an own property
  creates none.\<close>

fun place_index :: "nat \<Rightarrow> string \<Rightarrow> entry \<Rightarrow> store \<Rightarrow> store" where
  "place_index i k e [] = [(k, e)]"
| "place_index i k e ((k', e') # c) =
     (case array_index k' of
        Some j \<Rightarrow> if j < i then (k', e') # place_index i k e c else (k, e) # (k', e') # c
      | None \<Rightarrow> (k, e) # (k', e') # c)"

definition add_key :: "string \<Rightarrow> entry \<Rightarrow> store \<Rightarrow> store" where
  "add_key k e c = (case array_index k of Some i \<Rightarrow> place_index i k e c | None \<Rightarrow> c @ [(k, e)])"

fun overwrite :: "string \<Rightarrow> entry \<Rightarrow> store \<Rightarrow> store" where
  "overwrite k e [] = []"
| "overwrite k e ((k', e') # c) = (if k' = k then (k, e) # c else (k', e') # overwrite k e c)"

definition assign :: "string \<Rightarrow> entry \<Rightarrow> store \<Rightarrow> store" where
  "assign k e c =
     (if map_of c k \<noteq> None then overwrite k e c
      else if k = ''__proto__'' then c
      else add_key k e c)"

text \<open>The prototype after that assignment.\<close>

definition assign_proto :: "string \<Rightarrow> entry \<Rightarrow> store \<Rightarrow> entry option \<Rightarrow> entry option" where
  "assign_proto k e c p = (if map_of c k = None \<and> k = ''__proto__'' then Some e else p)"

text \<open>\<open>delete this.cache[key]\<close>.\<close>

definition remove_key :: "string \<Rightarrow> store \<Rightarrow> store" where
  "remove_key k c = filter (\<lambda>p. fst p \<noteq> k) c"

text \<open>The test \<open>!key || typeof key !== 'string'\<close> that opens \<open>set\<close>, \<open>get\<close>,
  \<open>has\<close> and \<open>delete\<close> lets a non-empty string through and nothing else.\<close>

fun valid_key :: "jsval \<Rightarrow> string option" where
  "valid_key (Str k) = (if k = [] then None else Some k)"
| "valid_key _ = None"

text \<open>\<open>evictOldest\<close>: the loop over \<open>Object.keys\<close> keeps the first key with the lowest
  \<open>expiresAt\<close> seen so far; that key is deleted.\<close>

fun find_oldest :: "store \<Rightarrow> string \<Rightarrow> int \<Rightarrow> string" where
  "find_oldest [] oldestKey oldestTime = oldestKey"
| "find_oldest ((k, e) # c) oldestKey oldestTime =
     (if expiresAt e < oldestTime then find_oldest c k (expiresAt e)
      else find_oldest c oldestKey oldestTime)"

definition evictOldest :: "store \<Rightarrow> store" where
  "evictOldest c =
     (case c of
        [] \<Rightarrow> c
      | (k0, e0) # _ \<Rightarrow> remove_key (find_oldest c k0 (expiresAt e0)) c)"

text \<open>\<open>set(key, value, ttlSeconds)\<close> at clock reading \<open>now\<close>. An invalid key is thrown
  before anything changes; an exception of \<open>deepClone\<close> is rethrown after the eviction has
  taken place.\<close>

definition cache_set :: "nat \<Rightarrow> int \<Rightarrow> jsval \<Rightarrow> jsval \<Rightarrow> int \<Rightarrow> state \<Rightarrow> (cache_error + unit) \<times> state" where
  "cache_set d now key v ttlSeconds s =
     (case valid_key key of
        None \<Rightarrow> (Inl InvalidCacheKey, s)
      | Some k \<Rightarrow>
          (let c1 = (if length (cache s) \<ge> MAX_CACHE_SIZE then evictOldest (cache s) else cache s);
               expires = now + ttlSeconds * 1000
           in (case deepClone d (heap s) v of
                 None \<Rightarrow> (Inl CloneFailed, s\<lparr>cache := c1\<rparr>)
               | Some (h', v') \<Rightarrow>
                   (Inr (), \<lparr>heap = h',
                             cache = assign k \<lparr>val = v', expiresAt = expires\<rparr> c1,
                             proto = assign_proto k \<lparr>val = v', expiresAt = expires\<rparr> c1 (proto s)\<rparr>))))"

text \<open>\<open>get(key)\<close>: \<open>null\<close> for an invalid key, a missing entry, an expired entry (which
  is deleted) and for any exception inside; a copy of the stored value otherwise. Without an own
  entry, the key \<open>__proto__\<close> reads the prototype of the cache object: \<open>Object.prototype\<close>,
  which has no \<open>expiresAt\<close> and no \<open>value\<close>, so that the copy of \<open>undefined\<close> is
  returned, or the entry that a \<open>set\<close> has put in its place, which \<open>delete\<close> cannot
  remove. The name of a method of \<open>Object.prototype\<close> reads that function, with the same
  outcome \<open>undefined\<close>. \<open>copy_out\<close> is the last statement,
  \<open>return this.deepClone(x)\<close>, under the \<open>catch\<close> that turns an exception into
  \<open>null\<close>.\<close>

definition copy_out :: "nat \<Rightarrow> state \<Rightarrow> jsval \<Rightarrow> jsval \<times> state" where
  "copy_out d s x =
     (case deepClone d (heap s) x of
        None \<Rightarrow> (Null, s)
      | Some (h', r) \<Rightarrow> (r, s\<lparr>heap := h'\<rparr>))"

definition cache_get :: "nat \<Rightarrow> int \<Rightarrow> jsval \<Rightarrow> state \<Rightarrow> jsval \<times> state" where
  "cache_get d now key s =
     (case valid_key key of
        None \<Rightarrow> (Null, s)
      | Some k \<Rightarrow>
          (case map_of (cache s) k of
             None \<Rightarrow>
               if k = ''__proto__'' then
                 (case proto s of
                    None \<Rightarrow> copy_out d s Undefined
                  | Some item \<Rightarrow>
                      if expiresAt item < now then (Null, s) else copy_out d s (val item))
               else if k \<in> set object_prototype_methods then copy_out d s Undefined
               else (Null, s)
           | Some item \<Rightarrow>
               if expiresAt item < now then (Null, s\<lparr>cache := remove_key k (cache s)\<rparr>)
               else copy_out d s (val item)))"

text \<open>\<open>delete(key)\<close> tests \<open>key in this.cache\<close>, which is true for an own property and
  for every member of \<open>Object.prototype\<close>; only an own property is removed.\<close>

definition cache_delete :: "jsval \<Rightarrow> store \<Rightarrow> bool \<times> store" where
  "cache_delete key c =
     (case valid_key key of
        None \<Rightarrow> (False, c)
      | Some k \<Rightarrow>
          if map_of c k \<noteq> None then (True, remove_key k c)
          else if k \<in> set object_prototype_names then (True, c)
          else (False, c))"

definition cache_clear :: "store \<Rightarrow> store" where
  "cache_clear c = []"

text \<open>\<open>has(key)\<close>: a member of \<open>Object.prototype\<close> read in place of an entry is
  truthy and has no \<open>expiresAt\<close>, so the answer is true.\<close>

definition cache_has :: "int \<Rightarrow> jsval \<Rightarrow> store \<Rightarrow> bool \<times> store" where
  "cache_has now key c =
     (case valid_key key of
        None \<Rightarrow> (False, c)
      | Some k \<Rightarrow>
          (case map_of c k of
             None \<Rightarrow> if k \<in> set object_prototype_names then (True, c) else (False, c)
           | Some item \<Rightarrow> if expiresAt item < now then (False, remove_key k c) else (True, c)))"

record cache_stats =
  stats_size :: nat
  stats_maxSize :: nat
  stats_keys :: "string list"

definition getStats :: "store \<Rightarrow> cache_stats" where
  "getStats c = \<lparr>stats_size = length (map fst c), stats_maxSize = MAX_CACHE_SIZE,
                 stats_keys = take 10 (map fst c)\<rparr>"

text \<open>\<open>cleanupExpired\<close>, the body of the periodic sweep.\<close>

definition cleanupExpired :: "int \<Rightarrow> store \<Rightarrow> store" where
  "cleanupExpired now c = filter (\<lambda>p. \<not> expiresAt (snd p) < now) c"

text \<open>A history of the service: the calls made on it, each with the clock reading it sees,
  starting from the empty cache the constructor leaves. \<open>clear\<close> replaces the cache object
  by a new one, with \<open>Object.prototype\<close> as its prototype again.\<close>

datatype cache_op =
    OpSet nat int jsval jsval int
  | OpGet nat int jsval
  | OpHas int jsval
  | OpDelete jsval
  | OpClear
  | OpSweep int

fun step :: "state \<Rightarrow> cache_op \<Rightarrow> state" where
  "step s (OpSet d now key v ttl) = snd (cache_set d now key v ttl s)"
| "step s (OpGet d now key) = snd (cache_get d now key s)"
| "step s (OpHas now key) = s\<lparr>cache := snd (cache_has now key (cache s))\<rparr>"
| "step s (OpDelete key) = s\<lparr>cache := snd (cache_delete key (cache s))\<rparr>"
| "step s OpClear = s\<lparr>cache := cache_clear (cache s), proto := None\<rparr>"
| "step s (OpSweep now) = s\<lparr>cache := cleanupExpired now (cache s)\<rparr>"

definition run :: "heap \<Rightarrow> cache_op list \<Rightarrow> state" where
  "run h0 ops = foldl step \<lparr>heap = h0, cache = [], proto = None\<rparr> ops"


section \<open>Cache invalidation: \<open>TasksService.invalidateTaskCache\<close>\<close>

text \<open>\<open>key.startsWith(p)\<close>.\<close>

definition startsWith :: "string \<Rightarrow> string \<Rightarrow> bool" where
  "startsWith s p = (take (length p) s = p)"

text \<open>
  The routine deletes the statistics key, then reads \<open>getStats()\<close> and deletes those of the
  reported keys that start with \<open>tasks:\<close> or \<open>stats:\<close>, then deletes the two keys
  \<open>tasks:*\<close> and \<open>stats:*\<close>. Nothing in it throws: \<open>delete\<close> catches every exception.
\<close>

definition invalidateTaskCache :: "store \<Rightarrow> store" where
  "invalidateTaskCache c =
     (let c1 = snd (cache_delete (Str ''stats:task-statistics'') c);
          stats = getStats c1;
          c2 = foldl (\<lambda>c' key.
                        if startsWith key ''tasks:'' \<or> startsWith key ''stats:''
                        then snd (cache_delete (Str key) c') else c')
                 c1 (stats_keys stats);
          c3 = snd (cache_delete (Str ''tasks:*'') c2)
      in snd (cache_delete (Str ''stats:*'') c3))"

section \<open>The rate limiter: \<open>RateLimitGuard\<close>\<close>

text \<open>
  \<open>requestRecords\<close> is a JavaScript object that maps a client address to the list of its
  recorded requests; \<open>None\<close> is an address without an own property. An object literal,
  here the response object of the \<open>HttpException\<close>, is the list of its properties.
\<close>

type_synonym js_object = "(string \<times> jsval) list"

record request_record =
  count :: int
  timestamp :: int

type_synonym records = "string \<Rightarrow> request_record list option"

record rate_limit_options =
  limit :: int
  windowMs :: int

text \<open>What \<open>handleRateLimit\<close> throws: the \<open>HttpException\<close> with its response object, or
  the \<open>TypeError\<close> of calling \<open>filter\<close> on something that has no such method.\<close>

datatype guard_error = TooManyRequests js_object | NotAFunction

text \<open>\<open>Math.ceil(windowMs / 1000)\<close> on integers.\<close>

definition ceil_seconds :: "int \<Rightarrow> int" where
  "ceil_seconds ms = - ((- ms) div 1000)"

text \<open>\<open>cleanupOldRecords\<close> at clock reading \<open>now\<close>: five minutes of retention.\<close>

definition cleanupOldRecords :: "int \<Rightarrow> records \<Rightarrow> records" where
  "cleanupOldRecords now requestRecords =
     (\<lambda>ip. case requestRecords ip of
             None \<Rightarrow> None
           | Some rs \<Rightarrow>
               (let rs' = filter (\<lambda>r. timestamp r > now - 5 * 60 * 1000) rs
                in if length rs' = 0 then None else Some rs'))"

text \<open>
  \<open>handleRateLimit(ip, options)\<close> at clock reading \<open>now\<close>. The result is \<open>Inl\<close> of what
  is thrown and \<open>Inr True\<close> when the request is let through. For an address without an own
  property that names a member of \<open>Object.prototype\<close>, the test \<open>!requestRecords[ip]\<close>
  finds that member, no list is created, and \<open>requestRecords[ip].filter\<close> is not a function.
  The argument \<open>sweep\<close> stands for the draw of \<open>Math.random()\<close>: \<open>None\<close> when it is not
  below \<open>0.001\<close>, and \<open>Some now'\<close> when it is and \<open>cleanupOldRecords\<close> runs, reading
  the clock as \<open>now'\<close>. The argument \<open>num_text\<close> is the runtime's conversion of a number
  to text in a template literal: \<open>num_text n d\<close> is the text of \<open>n / d\<close>.
\<close>

definition handleRateLimit ::
  "(int \<Rightarrow> int \<Rightarrow> string) \<Rightarrow> int \<Rightarrow> int option \<Rightarrow> string \<Rightarrow> rate_limit_options \<Rightarrow> records \<Rightarrow>
     (guard_error + bool) \<times> records" where
  "handleRateLimit num_text now sweep ip options requestRecords =
     (if requestRecords ip = None \<and> ip \<in> set object_prototype_names
      then (Inl NotAFunction, requestRecords)
      else
        (let recs = (case requestRecords ip of None \<Rightarrow> [] | Some rs \<Rightarrow> rs);
             windowStart = now - windowMs options;
             kept = filter (\<lambda>r. timestamp r > windowStart) recs
         in if int (length kept) \<ge> limit options
            then (Inl (TooManyRequests
                    [(''status'', Num 429),
                     (''error'', Str ''Rate limit exceeded''),
                     (''message'', Str (''Rate limit exceeded. Maximum '' @ num_text (limit options) 1 @
                        '' requests per '' @ num_text (windowMs options) 1000 @ '' seconds.'')),
                     (''limit'', Num (limit options)),
                     (''current'', Num (int (length kept))),
                     (''remaining'', Num 0),
                     (''retryAfter'', Num (ceil_seconds (windowMs options)))]),
                  requestRecords(ip \<mapsto> kept))
            else (let pushed = requestRecords(ip \<mapsto> kept @ [\<lparr>count = 1, timestamp = now\<rparr>])
                  in (Inr True,
                      (case sweep of None \<Rightarrow> pushed | Some now' \<Rightarrow> cleanupOldRecords now' pushed)))))"

text \<open>A client that sends one request after another from the same address, each at its own
  clock reading and with its own draw for the sweep, and collects the outcomes.\<close>

fun checks ::
  "(int \<Rightarrow> int \<Rightarrow> string) \<Rightarrow> (int \<times> int option) list \<Rightarrow> string \<Rightarrow> rate_limit_options \<Rightarrow> records \<Rightarrow>
     (guard_error + bool) list" where
  "checks num_text [] ip options requestRecords = []"
| "checks num_text ((now, sweep) # rest) ip options requestRecords =
     fst (handleRateLimit num_text now sweep ip options requestRecords) #
     checks num_text rest ip options (snd (handleRateLimit num_text now sweep ip options requestRecords))"

text \<open>A sweep, if it runs, reads the clock no later than \<open>t\<close>.\<close>

definition sweep_by :: "int option \<Rightarrow> int \<Rightarrow> bool" where
  "sweep_by sweep t = (case sweep of None \<Rightarrow> True | Some now' \<Rightarrow> now' \<le> t)"

text \<open>The record that \<open>handleRateLimit\<close> pushes for a request at time \<open>t\<close>, and the response
  object of its \<open>HttpException\<close>, by name.\<close>

definition hit :: "int \<Rightarrow> request_record" where
  "hit t = \<lparr>count = 1, timestamp = t\<rparr>"

definition rejection :: "(int \<Rightarrow> int \<Rightarrow> string) \<Rightarrow> int \<Rightarrow> int \<Rightarrow> int \<Rightarrow> js_object" where
  "rejection num_text lim window current =
     [(''status'', Num 429), (''error'', Str ''Rate limit exceeded''),
      (''message'', Str (''Rate limit exceeded. Maximum '' @ num_text lim 1 @
         '' requests per '' @ num_text window 1000 @ '' seconds.'')),
      (''limit'', Num lim), (''current'', Num current), (''remaining'', Num 0),
      (''retryAfter'', Num (ceil_seconds window))]"

section \<open>The job processor: \<open>TaskProcessorService\<close>\<close>

text \<open>
  A job carries its name (the kind), its payload \<open>job.data\<close> and the number of attempts made.
  The payload is \<open>None\<close> when it is \<open>null\<close> or \<open>undefined\<close>, where destructuring
  throws a \<open>TypeError\<close>, and the list of its properties otherwise; a property that is missing
  reads as \<open>undefined\<close>.
\<close>

record job =
  job_id :: string
  name :: string
  data :: "js_object option"
  attemptsMade :: int

datatype exn = TypeError | NotFoundException string | OtherError string

definition get_prop :: "js_object \<Rightarrow> string \<Rightarrow> jsval" where
  "get_prop obj k = (case map_of obj k of None \<Rightarrow> Undefined | Some v \<Rightarrow> v)"

text \<open>
  What the processor takes from outside \<open>src/\<close>: the outcome of
  \<open>tasksService.updateStatus(id, status)\<close>, which returns the updated task or throws; the list
  \<open>Object.values(TaskStatus)\<close>; and the member \<open>TaskStatus.IN_PROGRESS\<close>. The enum's
  declaration is not among the sources, so its values are parameters.
\<close>

record collaborators =
  updateStatus :: "jsval \<Rightarrow> jsval \<Rightarrow> exn + js_object"
  TaskStatus_values :: "jsval list"
  TaskStatus_IN_PROGRESS :: jsval

definition handleStatusUpdate :: "collaborators \<Rightarrow> job \<Rightarrow> exn + js_object" where
  "handleStatusUpdate env j =
     (case data j of
        None \<Rightarrow> Inl TypeError
      | Some payload \<Rightarrow>
          (let taskId = get_prop payload ''taskId''; status = get_prop payload ''status''
           in if \<not> truthy taskId \<or> \<not> truthy status
              then Inr [(''success'', Bool False), (''error'', Str ''Missing required data'')]
              else if status \<notin> set (TaskStatus_values env)
              then Inr [(''success'', Bool False), (''error'', Str ''Invalid status value'')]
              else (case updateStatus env taskId status of
                      Inl e \<Rightarrow> Inl e
                    | Inr task \<Rightarrow>
                        Inr [(''success'', Bool True),
                             (''taskId'', get_prop task ''id''),
                             (''newStatus'', get_prop task ''status'')])))"

definition handleOverdueTasks :: "collaborators \<Rightarrow> job \<Rightarrow> exn + js_object" where
  "handleOverdueTasks env j =
     (case data j of
        None \<Rightarrow> Inl TypeError
      | Some payload \<Rightarrow>
          (let taskId = get_prop payload ''taskId'';
               dueDate = get_prop payload ''dueDate'';
               userId = get_prop payload ''userId''
           in if \<not> truthy taskId \<or> \<not> truthy userId
              then Inr [(''success'', Bool False),
                        (''error'', Str ''Missing required data for overdue task'')]
              else (case updateStatus env taskId (TaskStatus_IN_PROGRESS env) of
                      Inl e \<Rightarrow> Inl e
                    | Inr task \<Rightarrow>
                        Inr [(''success'', Bool True),
                             (''message'', Str ''Overdue task processed''),
                             (''taskId'', taskId),
                             (''newStatus'', get_prop task ''status''),
                             (''overdueDate'', dueDate)])))"

text \<open>The \<open>switch\<close> inside the \<open>try\<close> of \<open>process\<close>.\<close>

definition dispatch :: "collaborators \<Rightarrow> job \<Rightarrow> exn + js_object" where
  "dispatch env j =
     (if name j = ''task-status-update'' then handleStatusUpdate env j
      else if name j = ''overdue-tasks-notification'' then handleOverdueTasks env j
      else Inr [(''success'', Bool False), (''error'', Str ''Unknown job type'')])"

text \<open>\<open>process(job)\<close>: \<open>Inl\<close> is the exception rethrown to the queue, \<open>Inr\<close> the value
  returned.\<close>

definition process :: "collaborators \<Rightarrow> job \<Rightarrow> exn + js_object" where
  "process env j =
     (case dispatch env j of
        Inr r \<Rightarrow> Inr r
      | Inl e \<Rightarrow>
          if attemptsMade j < 3 then Inl e
          else Inr [(''success'', Bool False),
                    (''error'', Str ''Job failed after maximum retries''),
                    (''taskId'', (case data j of None \<Rightarrow> Undefined | Some payload \<Rightarrow> get_prop payload ''taskId''))])"

section \<open>Example states\<close>



text \<open>The state after \<open>set('k', 7, 1)\<close> at time \<open>0\<close> on a fresh service: the entry expires
  at \<open>1000\<close>.\<close>

definition boundary_state :: state where
  "boundary_state = snd (cache_set 1 0 (Str ''k'') (Num 7) 1 \<lparr>heap = [], cache = [], proto = None\<rparr>)"

text \<open>A task store that is down, with three status values for the enum; a status-update job
  with a well-formed payload, delivered with a given attempt count; and jobs with a status
  outside the enum, without a status, without a user, and of an unregistered kind.\<close>

definition failing_env :: collaborators where
  "failing_env =
     \<lparr>updateStatus = (\<lambda>taskId status. Inl (OtherError ''connection refused'')),
      TaskStatus_values = [Str ''PENDING'', Str ''IN_PROGRESS'', Str ''COMPLETED''],
      TaskStatus_IN_PROGRESS = Str ''IN_PROGRESS''\<rparr>"

definition status_job :: "int \<Rightarrow> job" where
  "status_job n =
     \<lparr>job_id = ''42'', name = ''task-status-update'',
      data = Some [(''taskId'', Str ''t1''), (''status'', Str ''PENDING'')],
      attemptsMade = n\<rparr>"

definition bad_status_job :: job where
  "bad_status_job =
     \<lparr>job_id = ''43'', name = ''task-status-update'',
      data = Some [(''taskId'', Str ''t1''), (''status'', Str ''ARCHIVED'')],
      attemptsMade = 0\<rparr>"

definition no_status_job :: job where
  "no_status_job =
     \<lparr>job_id = ''44'', name = ''task-status-update'',
      data = Some [(''taskId'', Str ''t1'')],
      attemptsMade = 5\<rparr>"

definition no_user_job :: job where
  "no_user_job =
     \<lparr>job_id = ''45'', name = ''overdue-tasks-notification'',
      data = Some [(''taskId'', Str ''t1''), (''dueDate'', Str ''2024-01-01'')],
      attemptsMade = 1\<rparr>"

definition unknown_job :: job where
  "unknown_job =
     \<lparr>job_id = ''46'', name = ''send-email'', data = Some [], attemptsMade = 0\<rparr>"

text \<open>The options of the claimed scenario: three requests per second.\<close>

definition three_per_second :: rate_limit_options where
  "three_per_second = \<lparr>limit = 3, windowMs = 1000\<rparr>"

text \<open>Eleven pages of \<open>findAll\<close> cached at time \<open>0\<close> for three minutes each, on a fresh
  service; and the same followed by a cached \<open>getTaskStatistics\<close>.\<close>

definition page_keys :: "string list" where
  "page_keys =
     [''tasks:1:10:all:all'', ''tasks:2:10:all:all'', ''tasks:3:10:all:all'',
      ''tasks:4:10:all:all'', ''tasks:5:10:all:all'', ''tasks:6:10:all:all'',
      ''tasks:7:10:all:all'', ''tasks:8:10:all:all'', ''tasks:9:10:all:all'',
      ''tasks:10:10:all:all'', ''tasks:11:10:all:all'']"

definition paged_ops :: "cache_op list" where
  "paged_ops = map (\<lambda>k. OpSet 1 0 (Str k) (Str ''page'') 180) page_keys"

definition paged_stats_ops :: "cache_op list" where
  "paged_stats_ops = paged_ops @ [OpSet 1 0 (Str ''stats:task-statistics'') (Str ''statistics'') 300]"








text \<open>Jobs of both kinds whose payload is \<open>null\<close>.\<close>

definition null_status_job :: "int \<Rightarrow> job" where
  "null_status_job n =
     \<lparr>job_id = ''47'', name = ''task-status-update'', data = None, attemptsMade = n\<rparr>"

definition null_overdue_job :: "int \<Rightarrow> job" where
  "null_overdue_job n =
     \<lparr>job_id = ''48'', name = ''overdue-tasks-notification'', data = None, attemptsMade = n\<rparr>"

text \<open>The texts of the two numbers in the message of the scenario, \<open>3\<close> and
  \<open>1000 / 1000\<close>.\<close>

definition scenario_text :: "int \<Rightarrow> int \<Rightarrow> string" where
  "scenario_text n d = (if n = 3 \<and> d = 1 then ''3'' else if n = 1000 \<and> d = 1000 then ''1'' else [])"

section \<open>Properties of the cache\<close>

subsection \<open>Deleting, evicting and assigning keys\<close>

lemma length_remove_key_le: "length (remove_key k c) \<le> length c"
  by (simp add: remove_key_def)



lemma map_of_remove_key: "map_of (remove_key k c) = (map_of c)(k := None)"
  by (induction c) (auto simp: remove_key_def fun_eq_iff)




lemma length_evictOldest_le: "length (evictOldest c) \<le> length c"
proof (cases c)
  case Nil
  then show ?thesis by (simp add: evictOldest_def)
next
  case (Cons p c')
  obtain k0 e0 where "p = (k0, e0)" by (cases p)
  with Cons have "evictOldest c = remove_key (find_oldest c k0 (expiresAt e0)) c"
    by (simp add: evictOldest_def)
  then show ?thesis
    using length_remove_key_le [of "find_oldest c k0 (expiresAt e0)" c] by simp
qed

















subsection \<open>The store invariant\<close>













subsection \<open>Size bound and eviction\<close>




subsection \<open>The example state\<close>


lemma boundary_heap: "heap boundary_state = []"
  by (simp add: boundary_state_def cache_set_def MAX_CACHE_SIZE_def)



subsection \<open>Expiry on access\<close>




subsection \<open>Invalid keys, misses and expired reads\<close>



subsection \<open>Deletion tests presence, not expiry\<close>



section \<open>Properties of \<open>deepClone\<close>: the cache holds and returns copies\<close>

subsection \<open>Unfolding is stable under changes elsewhere in the heap\<close>













lemma valid_key_Some: "valid_key key = Some k \<Longrightarrow> key = Str k \<and> k \<noteq> []"
  by (cases key) (auto split: if_splits)





subsection \<open>\<open>set\<close> followed by \<open>get\<close>\<close>







section \<open>Properties of the cache invalidation\<close>

lemma array_index_tasks: "array_index (CHR ''t'' # k) = None"
  by (simp add: array_index_def digit_of_def)

lemma array_index_stats: "array_index (CHR ''s'' # k) = None"
  by (simp add: array_index_def digit_of_def)

lemma paged_cache:
  "cache (run [] paged_ops) = map (\<lambda>k. (k, \<lparr>val = Str ''page'', expiresAt = 180000\<rparr>)) page_keys"
  by (simp add: run_def paged_ops_def page_keys_def cache_set_def MAX_CACHE_SIZE_def
      assign_def add_key_def array_index_tasks)

lemma paged_stats_cache:
  "cache (run [] paged_stats_ops) =
     map (\<lambda>k. (k, \<lparr>val = Str ''page'', expiresAt = 180000\<rparr>)) page_keys @
     [(''stats:task-statistics'', \<lparr>val = Str ''statistics'', expiresAt = 300000\<rparr>)]"
proof -
  have "cache (run [] paged_stats_ops) =
      cache (step (run [] paged_ops) (OpSet 1 0 (Str ''stats:task-statistics'') (Str ''statistics'') 300))"
    by (simp add: run_def paged_stats_ops_def)
  also have "\<dots> = map (\<lambda>k. (k, \<lparr>val = Str ''page'', expiresAt = 180000\<rparr>)) page_keys @
     [(''stats:task-statistics'', \<lparr>val = Str ''statistics'', expiresAt = 300000\<rparr>)]"
    using paged_cache
    by (simp add: cache_set_def MAX_CACHE_SIZE_def page_keys_def assign_def add_key_def
        array_index_stats)
  finally show ?thesis .
qed

lemma map_of_cache_delete:
  "map_of (snd (cache_delete key c)) k = (if key = Str k \<and> k \<noteq> [] then None else map_of c k)"
proof (cases "valid_key key")
  case None
  then have "\<not> (key = Str k \<and> k \<noteq> [])" by (cases key) (auto split: if_splits)
  with None show ?thesis by (auto simp: cache_delete_def)
next
  case (Some k')
  then have key: "key = Str k'" "k' \<noteq> []" by (cases key; simp split: if_splits)+
  then show ?thesis
    by (auto simp: cache_delete_def map_of_remove_key)
qed

lemma map_of_delete_prefixed:
  "map_of (foldl (\<lambda>c' key. if startsWith key ''tasks:'' \<or> startsWith key ''stats:''
                            then snd (cache_delete (Str key) c') else c') c ks) k =
     (if k \<in> set ks \<and> (startsWith k ''tasks:'' \<or> startsWith k ''stats:'') then None
      else map_of c k)"
proof (induction ks arbitrary: c)
  case Nil
  show ?case by simp
next
  case (Cons key ks)
  have ne: "startsWith k ''tasks:'' \<or> startsWith k ''stats:'' \<Longrightarrow> k \<noteq> []"
    by (auto simp: startsWith_def)
  show ?case
    using ne by (simp add: Cons.IH map_of_cache_delete) blast
qed


lemma map_of_invalidateTaskCache:
  "map_of (invalidateTaskCache c) k =
     (if k = ''stats:task-statistics'' \<or> k = ''tasks:*'' \<or> k = ''stats:*'' \<or>
         (k \<in> set (stats_keys (getStats (snd (cache_delete (Str ''stats:task-statistics'') c)))) \<and>
          (startsWith k ''tasks:'' \<or> startsWith k ''stats:''))
      then None else map_of c k)"
proof -
  define c1 where "c1 = snd (cache_delete (Str ''stats:task-statistics'') c)"
  define c2 where "c2 = foldl (\<lambda>c' key. if startsWith key ''tasks:'' \<or> startsWith key ''stats:''
                            then snd (cache_delete (Str key) c') else c') c1 (stats_keys (getStats c1))"
  define c3 where "c3 = snd (cache_delete (Str ''tasks:*'') c2)"
  have inv: "invalidateTaskCache c = snd (cache_delete (Str ''stats:*'') c3)"
    by (simp add: invalidateTaskCache_def Let_def c1_def c2_def c3_def)
  have m1: "map_of c1 k = (if k = ''stats:task-statistics'' then None else map_of c k)"
    unfolding c1_def map_of_cache_delete by auto
  have m2: "map_of c2 k =
      (if k \<in> set (stats_keys (getStats c1)) \<and> (startsWith k ''tasks:'' \<or> startsWith k ''stats:'')
       then None else map_of c1 k)"
    unfolding c2_def by (rule map_of_delete_prefixed)
  have m3: "map_of c3 k = (if k = ''tasks:*'' then None else map_of c2 k)"
    unfolding c3_def map_of_cache_delete by auto
  have m4: "map_of (invalidateTaskCache c) k = (if k = ''stats:*'' then None else map_of c3 k)"
    unfolding inv map_of_cache_delete by auto
  show ?thesis
    unfolding m4 m3 m2 m1 c1_def [symmetric] by auto
qed


text \<open>
  Claim C6, as amended. After \<open>invalidateTaskCache\<close> a key has no entry if it is
  \<open>stats:task-statistics\<close>, or the literal key \<open>tasks:*\<close> or \<open>stats:*\<close>, or one of
  the keys that \<open>getStats\<close> reports once the statistics key is deleted (the first ten keys
  of the store) and starts with \<open>tasks:\<close> or \<open>stats:\<close>; every other key keeps the entry
  it had. Consequently there is a history of the service after which an entry under a key
  starting with \<open>tasks:\<close>, not yet expired, is still in the store and visible once
  \<open>invalidateTaskCache\<close> has run.
\<close>

theorem invalidation_reaches_only_sampled_keys:
  "map_of (invalidateTaskCache c) k =
     (if k = ''stats:task-statistics'' \<or> k = ''tasks:*'' \<or> k = ''stats:*'' \<or>
         (k \<in> set (stats_keys (getStats (snd (cache_delete (Str ''stats:task-statistics'') c)))) \<and>
          (startsWith k ''tasks:'' \<or> startsWith k ''stats:''))
      then None else map_of c k) \<and>
   stats_keys (getStats c) = take 10 (map fst c) \<and>
   (\<exists>ops k' e now.
      map_of (cache (run [] ops)) k' = Some e \<and> startsWith k' ''tasks:'' \<and> now \<le> expiresAt e \<and>
      map_of (invalidateTaskCache (cache (run [] ops))) k' = Some e \<and>
      fst (cache_has now (Str k') (invalidateTaskCache (cache (run [] ops)))) = True)"
proof (intro conjI)
  show "map_of (invalidateTaskCache c) k =
     (if k = ''stats:task-statistics'' \<or> k = ''tasks:*'' \<or> k = ''stats:*'' \<or>
         (k \<in> set (stats_keys (getStats (snd (cache_delete (Str ''stats:task-statistics'') c)))) \<and>
          (startsWith k ''tasks:'' \<or> startsWith k ''stats:''))
      then None else map_of c k)"
    by (rule map_of_invalidateTaskCache)
  show "stats_keys (getStats c) = take 10 (map fst c)"
    by (simp add: getStats_def)
  let ?c = "cache (run [] paged_ops)"
  let ?k = "''tasks:11:10:all:all''"
  let ?e = "\<lparr>val = Str ''page'', expiresAt = 180000\<rparr>"
  have before: "map_of ?c ?k = Some ?e"
    by (simp add: paged_cache page_keys_def)
  have sample: "?k \<notin> set (stats_keys (getStats (snd (cache_delete (Str ''stats:task-statistics'') ?c))))"
    by (simp add: paged_cache page_keys_def cache_delete_def getStats_def)
  have after: "map_of (invalidateTaskCache ?c) ?k = Some ?e"
    using sample before by (simp add: map_of_invalidateTaskCache)
  then have has: "fst (cache_has 1 (Str ?k) (invalidateTaskCache ?c)) = True"
    by (simp add: cache_has_def)
  have pre: "startsWith ?k ''tasks:''"
    by (simp add: startsWith_def)
  have "(1 :: int) \<le> expiresAt ?e" by simp
  with before pre after has
  show "\<exists>ops k' e now.
      map_of (cache (run [] ops)) k' = Some e \<and> startsWith k' ''tasks:'' \<and> now \<le> expiresAt e \<and>
      map_of (invalidateTaskCache (cache (run [] ops))) k' = Some e \<and>
      fst (cache_has now (Str k') (invalidateTaskCache (cache (run [] ops)))) = True"
    by blast
qed

theorem invalidation_reaches_only_sampled_keys_witness:
  "map_of (invalidateTaskCache (cache (run [] paged_ops))) ''tasks:1:10:all:all'' = None \<and>
   map_of (invalidateTaskCache (cache (run [] paged_ops))) ''tasks:11:10:all:all'' =
     Some \<lparr>val = Str ''page'', expiresAt = 180000\<rparr> \<and>
   fst (cache_has 1 (Str ''tasks:11:10:all:all'') (invalidateTaskCache (cache (run [] paged_ops)))) = True"
proof -
  have s: "stats_keys (getStats (snd (cache_delete (Str ''stats:task-statistics'') (cache (run [] paged_ops))))) =
      take 10 page_keys"
    by (simp add: paged_cache page_keys_def cache_delete_def getStats_def)
  from invalidation_reaches_only_sampled_keys [of "cache (run [] paged_ops)" "''tasks:1:10:all:all''"]
  have a: "map_of (invalidateTaskCache (cache (run [] paged_ops))) ''tasks:1:10:all:all'' = None"
    unfolding s by (simp add: page_keys_def startsWith_def)
  from invalidation_reaches_only_sampled_keys [of "cache (run [] paged_ops)" "''tasks:11:10:all:all''"]
  have b: "map_of (invalidateTaskCache (cache (run [] paged_ops))) ''tasks:11:10:all:all'' =
     Some \<lparr>val = Str ''page'', expiresAt = 180000\<rparr>"
    unfolding s by (simp add: page_keys_def paged_cache)
  from b have "fst (cache_has 1 (Str ''tasks:11:10:all:all'') (invalidateTaskCache (cache (run [] paged_ops)))) = True"
    by (simp add: cache_has_def)
  with a b show ?thesis by blast
qed


text \<open>
  The claim as stated lets the routine delete only sampled keys and the two literal keys. It
  also deletes \<open>stats:task-statistics\<close> wherever that key stands: cached after eleven pages,
  the key is not among the ten that \<open>getStats\<close> reports, and it is gone afterwards.
\<close>

theorem statistics_key_deleted_outside_sample_counterexample:
  "map_of (cache (run [] paged_stats_ops)) ''stats:task-statistics'' =
     Some \<lparr>val = Str ''statistics'', expiresAt = 300000\<rparr> \<and>
   ''stats:task-statistics'' \<notin> set (stats_keys (getStats (cache (run [] paged_stats_ops)))) \<and>
   ''stats:task-statistics'' \<notin> set (stats_keys (getStats (snd (cache_delete
       (Str ''stats:task-statistics'') (cache (run [] paged_stats_ops)))))) \<and>
   ''stats:task-statistics'' \<noteq> ''tasks:*'' \<and> ''stats:task-statistics'' \<noteq> ''stats:*'' \<and>
   map_of (invalidateTaskCache (cache (run [] paged_stats_ops))) ''stats:task-statistics'' = None"
  by (simp add: paged_stats_cache page_keys_def getStats_def map_of_invalidateTaskCache
      cache_delete_def remove_key_def)

section \<open>Properties of the rate limiter\<close>

lemma ceil_seconds_pos: "0 < ms \<Longrightarrow> 1 \<le> ceil_seconds ms"
  unfolding ceil_seconds_def by (simp add: div_int_pos_iff)

lemma handleRateLimit_reject:
  assumes "kept = filter (\<lambda>r. now - windowMs options < timestamp r) (case R ip of None \<Rightarrow> [] | Some rs \<Rightarrow> rs)"
    and "limit options \<le> int (length kept)"
    and "R ip = None \<longrightarrow> ip \<notin> set object_prototype_names"
  shows "handleRateLimit num_text now sweep ip options R =
           (Inl (TooManyRequests (rejection num_text (limit options) (windowMs options) (int (length kept)))),
            R(ip \<mapsto> kept))"
  using assms(2,3) unfolding assms(1) by (auto simp add: handleRateLimit_def rejection_def Let_def)

lemma handleRateLimit_allow:
  assumes "kept = filter (\<lambda>r. now - windowMs options < timestamp r) (case R ip of None \<Rightarrow> [] | Some rs \<Rightarrow> rs)"
    and "int (length kept) < limit options"
    and "R ip = None \<longrightarrow> ip \<notin> set object_prototype_names"
  shows "handleRateLimit num_text now sweep ip options R =
           (Inr True,
            (case sweep of
               None \<Rightarrow> R(ip \<mapsto> kept @ [\<lparr>count = 1, timestamp = now\<rparr>])
             | Some now' \<Rightarrow>
                 cleanupOldRecords now' (R(ip \<mapsto> kept @ [\<lparr>count = 1, timestamp = now\<rparr>]))))"
  using assms(2,3) unfolding assms(1)
  by (auto simp add: handleRateLimit_def Let_def)

lemma sweep_keeps_recent:
  assumes "R ip = Some rs" and "rs \<noteq> []" and "\<forall>r\<in>set rs. now' - 300000 < timestamp r"
  shows "cleanupOldRecords now' R ip = Some rs"
proof -
  from assms(3) have "filter (\<lambda>r. now' - 300000 < timestamp r) rs = rs"
    by (simp add: filter_id_conv)
  with assms(1,2) show ?thesis
    by (simp add: cleanupOldRecords_def Let_def)
qed

lemma allowed_then:
  assumes rs: "case R ip of None \<Rightarrow> rs = [] \<and> ip \<notin> set object_prototype_names | Some rs' \<Rightarrow> rs' = rs"
    and win: "\<forall>r\<in>set rs. now - windowMs options < timestamp r"
    and lim: "int (length rs) < limit options"
    and sw: "case sweep of None \<Rightarrow> True
             | Some now' \<Rightarrow> now' - 300000 < now \<and> (\<forall>r\<in>set rs. now' - 300000 < timestamp r)"
  shows "fst (handleRateLimit num_text now sweep ip options R) = Inr True \<and>
         snd (handleRateLimit num_text now sweep ip options R) ip = Some (rs @ [hit now])"
proof -
  have recs: "(case R ip of None \<Rightarrow> [] | Some rs \<Rightarrow> rs) = rs"
    using rs by (simp split: option.splits)
  have ok: "R ip = None \<longrightarrow> ip \<notin> set object_prototype_names"
    using rs by (simp split: option.splits)
  from win have kept: "filter (\<lambda>r. now - windowMs options < timestamp r) rs = rs"
    by (simp add: filter_id_conv)
  have eq: "handleRateLimit num_text now sweep ip options R =
           (Inr True,
            (case sweep of
               None \<Rightarrow> R(ip \<mapsto> rs @ [\<lparr>count = 1, timestamp = now\<rparr>])
             | Some now' \<Rightarrow>
                 cleanupOldRecords now' (R(ip \<mapsto> rs @ [\<lparr>count = 1, timestamp = now\<rparr>]))))"
    using handleRateLimit_allow [of rs now options R ip num_text sweep] recs kept lim ok by simp
  show ?thesis
  proof (cases sweep)
    case None
    with eq show ?thesis by (simp add: hit_def)
  next
    case (Some now')
    with sw have "\<forall>r\<in>set (rs @ [\<lparr>count = 1, timestamp = now\<rparr>]). now' - 300000 < timestamp r"
      by auto
    then have "cleanupOldRecords now' (R(ip \<mapsto> rs @ [\<lparr>count = 1, timestamp = now\<rparr>])) ip =
        Some (rs @ [\<lparr>count = 1, timestamp = now\<rparr>])"
      by (intro sweep_keeps_recent) simp_all
    with eq Some show ?thesis by (simp add: hit_def)
  qed
qed

lemma three_then_reject_then_allow:
  assumes fresh: "R ip = None" "ip \<notin> set object_prototype_names"
    and order: "t1 \<le> t2" "t2 \<le> t3" "t3 \<le> t4" "t4 < t1 + 1000" "t1 + 1000 \<le> t5"
    and sweeps: "sweep_by s1 t2" "sweep_by s2 t3" "sweep_by s3 t4"
  shows "checks num_text [(t1, s1), (t2, s2), (t3, s3), (t4, s4), (t5, s5)] ip \<lparr>limit = 3, windowMs = 1000\<rparr> R =
           [Inr True, Inr True, Inr True, Inl (TooManyRequests (rejection num_text 3 1000 3)), Inr True]"
proof -
  let ?o = "\<lparr>limit = 3, windowMs = 1000\<rparr>"
  define R1 where "R1 = snd (handleRateLimit num_text t1 s1 ip ?o R)"
  define R2 where "R2 = snd (handleRateLimit num_text t2 s2 ip ?o R1)"
  define R3 where "R3 = snd (handleRateLimit num_text t3 s3 ip ?o R2)"
  define R4 where "R4 = snd (handleRateLimit num_text t4 s4 ip ?o R3)"
  have c1: "fst (handleRateLimit num_text t1 s1 ip ?o R) = Inr True \<and> R1 ip = Some ([] @ [hit t1])"
    unfolding R1_def using fresh order sweeps(1)
    by (intro allowed_then) (auto simp: sweep_by_def split: option.splits)
  have c2: "fst (handleRateLimit num_text t2 s2 ip ?o R1) = Inr True \<and> R2 ip = Some ([hit t1] @ [hit t2])"
    unfolding R2_def using c1 order sweeps(2)
    by (intro allowed_then) (auto simp: sweep_by_def hit_def split: option.splits)
  have c3: "fst (handleRateLimit num_text t3 s3 ip ?o R2) = Inr True \<and> R3 ip = Some ([hit t1, hit t2] @ [hit t3])"
    unfolding R3_def using c2 order sweeps(3)
    by (intro allowed_then) (auto simp: sweep_by_def hit_def split: option.splits)
  have k4: "filter (\<lambda>r. t4 - windowMs ?o < timestamp r) (case R3 ip of None \<Rightarrow> [] | Some rs \<Rightarrow> rs) =
      [hit t1, hit t2, hit t3]"
    using c3 order by (simp add: hit_def)
  have c4: "handleRateLimit num_text t4 s4 ip ?o R3 =
      (Inl (TooManyRequests (rejection num_text 3 1000 3)), R3(ip \<mapsto> [hit t1, hit t2, hit t3]))"
    using handleRateLimit_reject [of "[hit t1, hit t2, hit t3]" t4 ?o R3 ip num_text s4] k4 c3
    by simp
  then have r4: "R4 ip = Some [hit t1, hit t2, hit t3]"
    by (simp add: R4_def)
  have "length (filter (\<lambda>r. t5 - windowMs ?o < timestamp r) [hit t1, hit t2, hit t3]) \<le> 2"
    using order by (simp add: hit_def)
  then have "int (length (filter (\<lambda>r. t5 - windowMs ?o < timestamp r)
      (case R4 ip of None \<Rightarrow> [] | Some rs \<Rightarrow> rs))) < limit ?o"
    using r4 by simp
  then have c5: "fst (handleRateLimit num_text t5 s5 ip ?o R4) = Inr True"
    using handleRateLimit_allow [of _ t5 ?o R4 ip num_text s5] r4 by simp
  show ?thesis
    using c1 c2 c3 c4 c5 by (simp add: R1_def R2_def R3_def R4_def)
qed



text \<open>
  Claim C4, as amended. Let \<open>limit > 0\<close> and \<open>windowMs > 0\<close>, and let the address have
  records or not be the name of a member of \<open>Object.prototype\<close>. Then \<open>handleRateLimit\<close>
  keeps of the address's records those with \<open>timestamp > now - windowMs\<close>. If at least
  \<open>limit\<close> are kept it throws the response object with \<open>status\<close>, \<open>error\<close>,
  \<open>message\<close>, \<open>limit\<close>, \<open>current\<close> (the number kept), \<open>remaining: 0\<close> and
  \<open>retryAfter\<close> (the window in whole seconds, at least one), and records nothing; otherwise
  it records the request at \<open>now\<close> and lets it through, after which the occasional sweep may
  run. An address without records is always let through.
  With three requests per 1000 ms, for such an address without records: requests at
  \<open>t1 \<le> t2 \<le> t3\<close> pass, a fourth at \<open>t4\<close> in the same window (\<open>t4 < t1 + 1000\<close>) is
  rejected with \<open>current: 3, remaining: 0, retryAfter: 1\<close>, and a request once the window of
  the first has elapsed (\<open>t1 + 1000 \<le> t5\<close>) passes again. A sweep that runs after one of the
  first three requests reads the clock before the next request.
\<close>

theorem sliding_window_check:
  "(0 < limit options \<and> 0 < windowMs options \<and>
    (R ip = None \<longrightarrow> ip \<notin> set object_prototype_names) \<longrightarrow>
      (let kept = filter (\<lambda>r. now - windowMs options < timestamp r)
                    (case R ip of None \<Rightarrow> [] | Some rs \<Rightarrow> rs)
       in (limit options \<le> int (length kept) \<longrightarrow>
             handleRateLimit num_text now sweep ip options R =
               (Inl (TooManyRequests
                  [(''status'', Num 429), (''error'', Str ''Rate limit exceeded''),
                   (''message'', Str (''Rate limit exceeded. Maximum '' @ num_text (limit options) 1 @
                      '' requests per '' @ num_text (windowMs options) 1000 @ '' seconds.'')),
                   (''limit'', Num (limit options)), (''current'', Num (int (length kept))),
                   (''remaining'', Num 0),
                   (''retryAfter'', Num (ceil_seconds (windowMs options)))]),
                R(ip \<mapsto> kept)) \<and>
             1 \<le> ceil_seconds (windowMs options)) \<and>
          (int (length kept) < limit options \<longrightarrow>
             handleRateLimit num_text now sweep ip options R =
               (Inr True,
                (case sweep of
                   None \<Rightarrow> R(ip \<mapsto> kept @ [\<lparr>count = 1, timestamp = now\<rparr>])
                 | Some now' \<Rightarrow>
                     cleanupOldRecords now' (R(ip \<mapsto> kept @ [\<lparr>count = 1, timestamp = now\<rparr>]))))) \<and>
          (R ip = None \<longrightarrow> fst (handleRateLimit num_text now sweep ip options R) = Inr True))) \<and>
   (R ip = None \<and> ip \<notin> set object_prototype_names \<and>
    t1 \<le> t2 \<and> t2 \<le> t3 \<and> t3 \<le> t4 \<and> t4 < t1 + 1000 \<and> t1 + 1000 \<le> t5 \<and>
    sweep_by s1 t2 \<and> sweep_by s2 t3 \<and> sweep_by s3 t4 \<longrightarrow>
      checks num_text [(t1, s1), (t2, s2), (t3, s3), (t4, s4), (t5, s5)] ip
          \<lparr>limit = 3, windowMs = 1000\<rparr> R =
        [Inr True, Inr True, Inr True,
         Inl (TooManyRequests
            [(''status'', Num 429), (''error'', Str ''Rate limit exceeded''),
             (''message'', Str (''Rate limit exceeded. Maximum '' @ num_text 3 1 @
                '' requests per '' @ num_text 1000 1000 @ '' seconds.'')),
             (''limit'', Num 3), (''current'', Num 3), (''remaining'', Num 0),
             (''retryAfter'', Num 1)]),
         Inr True])"
proof (intro conjI impI)
  assume pos: "0 < limit options \<and> 0 < windowMs options \<and>
    (R ip = None \<longrightarrow> ip \<notin> set object_prototype_names)"
  define kept where "kept = filter (\<lambda>r. now - windowMs options < timestamp r)
                    (case R ip of None \<Rightarrow> [] | Some rs \<Rightarrow> rs)"
  have rej: "limit options \<le> int (length kept) \<longrightarrow>
             handleRateLimit num_text now sweep ip options R =
               (Inl (TooManyRequests
                  [(''status'', Num 429), (''error'', Str ''Rate limit exceeded''),
                   (''message'', Str (''Rate limit exceeded. Maximum '' @ num_text (limit options) 1 @
                      '' requests per '' @ num_text (windowMs options) 1000 @ '' seconds.'')),
                   (''limit'', Num (limit options)), (''current'', Num (int (length kept))),
                   (''remaining'', Num 0),
                   (''retryAfter'', Num (ceil_seconds (windowMs options)))]),
                R(ip \<mapsto> kept)) \<and>
             1 \<le> ceil_seconds (windowMs options)"
    using handleRateLimit_reject [of kept now options R ip num_text sweep] kept_def pos
    by (simp add: rejection_def ceil_seconds_pos)
  have alw: "int (length kept) < limit options \<longrightarrow>
             handleRateLimit num_text now sweep ip options R =
               (Inr True,
                (case sweep of
                   None \<Rightarrow> R(ip \<mapsto> kept @ [\<lparr>count = 1, timestamp = now\<rparr>])
                 | Some now' \<Rightarrow>
                     cleanupOldRecords now' (R(ip \<mapsto> kept @ [\<lparr>count = 1, timestamp = now\<rparr>]))))"
    using handleRateLimit_allow [of kept now options R ip num_text sweep] kept_def pos
    by simp
  have fresh: "R ip = None \<longrightarrow> fst (handleRateLimit num_text now sweep ip options R) = Inr True"
  proof
    assume "R ip = None"
    then have "kept = []" by (simp add: kept_def)
    with pos alw show "fst (handleRateLimit num_text now sweep ip options R) = Inr True" by simp
  qed
  from rej alw fresh
  show "let kept = filter (\<lambda>r. now - windowMs options < timestamp r)
                    (case R ip of None \<Rightarrow> [] | Some rs \<Rightarrow> rs)
       in (limit options \<le> int (length kept) \<longrightarrow>
             handleRateLimit num_text now sweep ip options R =
               (Inl (TooManyRequests
                  [(''status'', Num 429), (''error'', Str ''Rate limit exceeded''),
                   (''message'', Str (''Rate limit exceeded. Maximum '' @ num_text (limit options) 1 @
                      '' requests per '' @ num_text (windowMs options) 1000 @ '' seconds.'')),
                   (''limit'', Num (limit options)), (''current'', Num (int (length kept))),
                   (''remaining'', Num 0),
                   (''retryAfter'', Num (ceil_seconds (windowMs options)))]),
                R(ip \<mapsto> kept)) \<and>
             1 \<le> ceil_seconds (windowMs options)) \<and>
          (int (length kept) < limit options \<longrightarrow>
             handleRateLimit num_text now sweep ip options R =
               (Inr True,
                (case sweep of
                   None \<Rightarrow> R(ip \<mapsto> kept @ [\<lparr>count = 1, timestamp = now\<rparr>])
                 | Some now' \<Rightarrow>
                     cleanupOldRecords now' (R(ip \<mapsto> kept @ [\<lparr>count = 1, timestamp = now\<rparr>]))))) \<and>
          (R ip = None \<longrightarrow> fst (handleRateLimit num_text now sweep ip options R) = Inr True)"
    unfolding Let_def kept_def by blast
next
  assume "R ip = None \<and> ip \<notin> set object_prototype_names \<and>
    t1 \<le> t2 \<and> t2 \<le> t3 \<and> t3 \<le> t4 \<and> t4 < t1 + 1000 \<and> t1 + 1000 \<le> t5 \<and>
    sweep_by s1 t2 \<and> sweep_by s2 t3 \<and> sweep_by s3 t4"
  then show "checks num_text [(t1, s1), (t2, s2), (t3, s3), (t4, s4), (t5, s5)] ip
          \<lparr>limit = 3, windowMs = 1000\<rparr> R =
        [Inr True, Inr True, Inr True,
         Inl (TooManyRequests
            [(''status'', Num 429), (''error'', Str ''Rate limit exceeded''),
             (''message'', Str (''Rate limit exceeded. Maximum '' @ num_text 3 1 @
                '' requests per '' @ num_text 1000 1000 @ '' seconds.'')),
             (''limit'', Num 3), (''current'', Num 3), (''remaining'', Num 0),
             (''retryAfter'', Num 1)]),
         Inr True]"
    using three_then_reject_then_allow [of R ip t1 t2 t3 t4 t5 s1 s2 s3 num_text s4 s5]
    by (simp add: rejection_def ceil_seconds_def)
qed

theorem sliding_window_check_witness:
  "0 < limit three_per_second \<and> 0 < windowMs three_per_second \<and>
   ''10.0.0.1'' \<notin> set object_prototype_names \<and>
   sweep_by (Some 150) 200 \<and>
   fst (handleRateLimit scenario_text 0 None ''10.0.0.1'' three_per_second (\<lambda>ip. None)) = Inr True \<and>
   checks scenario_text [(0, None), (100, Some 150), (200, None), (300, None), (1000, None)]
       ''10.0.0.1'' three_per_second (\<lambda>ip. None) =
     [Inr True, Inr True, Inr True,
      Inl (TooManyRequests
         [(''status'', Num 429), (''error'', Str ''Rate limit exceeded''),
          (''message'', Str ''Rate limit exceeded. Maximum 3 requests per 1 seconds.''),
          (''limit'', Num 3), (''current'', Num 3), (''remaining'', Num 0),
          (''retryAfter'', Num 1)]),
      Inr True]"
proof -
  let ?R = "(\<lambda>ip. None) :: records"
  note inst = sliding_window_check
    [where options = three_per_second and now = 0 and R = ?R and ip = "''10.0.0.1''"
       and num_text = scenario_text
       and sweep = None and ?t1.0 = 0 and ?t2.0 = 100 and ?t3.0 = 200 and ?t4.0 = 300
       and ?t5.0 = 1000 and ?s1.0 = None and ?s2.0 = "Some 150" and ?s3.0 = None
       and ?s4.0 = None and ?s5.0 = None]
  have name: "''10.0.0.1'' \<notin> set object_prototype_names"
    by (simp add: object_prototype_names_def object_prototype_methods_def)
  have pos: "0 < limit three_per_second \<and> 0 < windowMs three_per_second"
    by (simp add: three_per_second_def)
  from pos name have pos': "0 < limit three_per_second \<and> 0 < windowMs three_per_second \<and>
      (?R ''10.0.0.1'' = None \<longrightarrow> ''10.0.0.1'' \<notin> set object_prototype_names)"
    by simp
  have sw: "sweep_by (Some 150) 200"
    by (simp add: sweep_by_def)
  from name have hyp: "?R ''10.0.0.1'' = None \<and> ''10.0.0.1'' \<notin> set object_prototype_names \<and>
      (0 :: int) \<le> 100 \<and> (100 :: int) \<le> 200 \<and>
      (200 :: int) \<le> 300 \<and> (300 :: int) < 0 + 1000 \<and> (0 :: int) + 1000 \<le> 1000 \<and>
      sweep_by None 100 \<and> sweep_by (Some 150) 200 \<and> sweep_by None 300"
    by (simp add: sweep_by_def)
  from inst [THEN conjunct1, THEN mp, OF pos']
  have first: "fst (handleRateLimit scenario_text 0 None ''10.0.0.1'' three_per_second ?R) = Inr True"
    by (simp add: Let_def)
  from inst [THEN conjunct2, THEN mp, OF hyp]
  have scenario: "checks scenario_text [(0, None), (100, Some 150), (200, None), (300, None), (1000, None)]
       ''10.0.0.1'' three_per_second ?R =
     [Inr True, Inr True, Inr True,
      Inl (TooManyRequests
         [(''status'', Num 429), (''error'', Str ''Rate limit exceeded''),
          (''message'', Str ''Rate limit exceeded. Maximum 3 requests per 1 seconds.''),
          (''limit'', Num 3), (''current'', Num 3), (''remaining'', Num 0),
          (''retryAfter'', Num 1)]),
      Inr True]"
    by (simp add: three_per_second_def scenario_text_def)
  from pos name sw first scenario show ?thesis by blast
qed

text \<open>
  The claim as stated speaks of every identity and of a field \<open>retryAfterSeconds\<close>. For the
  address \<open>constructor\<close>, which has no records, \<open>requestRecords[ip]\<close> is the function
  \<open>Object\<close>: no list is created, and every check ends in the \<open>TypeError\<close> of calling
  \<open>filter\<close> on it, the first three of the scenario included. And the response object of a
  rejection has the field \<open>retryAfter\<close>; it has no field \<open>retryAfterSeconds\<close>.
\<close>

theorem prototype_identity_counterexample:
  "0 < limit three_per_second \<and> 0 < windowMs three_per_second \<and>
   checks scenario_text [(0, None), (100, None), (200, None), (300, None), (1000, None)]
       ''constructor'' three_per_second (\<lambda>ip. None) =
     [Inl NotAFunction, Inl NotAFunction, Inl NotAFunction, Inl NotAFunction, Inl NotAFunction] \<and>
   (\<exists>detail. checks scenario_text [(0, None), (100, None), (200, None), (300, None)]
       ''10.0.0.1'' three_per_second (\<lambda>ip. None) =
         [Inr True, Inr True, Inr True, Inl (TooManyRequests detail)] \<and>
      map_of detail ''remaining'' = Some (Num 0) \<and>
      map_of detail ''retryAfter'' = Some (Num 1) \<and>
      map_of detail ''retryAfterSeconds'' = None)"
  by (simp add: handleRateLimit_def three_per_second_def object_prototype_names_def
      object_prototype_methods_def ceil_seconds_def Let_def)



section \<open>Properties of the job processor\<close>

text \<open>What the handlers do does not depend on the attempt count; only the \<open>catch\<close> of
  \<open>process\<close> reads it.\<close>

lemma dispatch_attempts: "dispatch env (j\<lparr>attemptsMade := n\<rparr>) = dispatch env j"
  by (simp add: dispatch_def handleStatusUpdate_def handleOverdueTasks_def)


lemma failing_dispatch: "dispatch failing_env (status_job n) = Inl (OtherError ''connection refused'')"
  by (simp add: dispatch_def handleStatusUpdate_def failing_env_def status_job_def get_prop_def)


subsection \<open>Bounded retry\<close>

text \<open>
  Claim C3, as amended. When the handler of a job throws \<open>e\<close>, \<open>process\<close> rethrows
  \<open>e\<close> if \<open>attemptsMade < 3\<close>, and if \<open>attemptsMade \<ge> 3\<close> it returns, without
  throwing, the object \<open>{success: false, error: 'Job failed after maximum retries', taskId}\<close>
  with the \<open>taskId\<close> of the payload (\<open>undefined\<close> if there is none); the object has no
  \<open>jobId\<close>. A job whose handler throws at each of the deliveries with \<open>attemptsMade\<close>
  0, 1, 2, 3 is rethrown three times and answered with that object the fourth time.
\<close>

theorem handler_failure_rethrown_until_third_attempt:
  "(dispatch env j = Inl e \<longrightarrow>
      (attemptsMade j < 3 \<longrightarrow> process env j = Inl e) \<and>
      (attemptsMade j \<ge> 3 \<longrightarrow>
         process env j =
           Inr [(''success'', Bool False),
                (''error'', Str ''Job failed after maximum retries''),
                (''taskId'', (case data j of None \<Rightarrow> Undefined | Some p \<Rightarrow> get_prop p ''taskId''))])) \<and>
   ((\<forall>n\<in>{0, 1, 2, 3}. dispatch (envs n) (j\<lparr>attemptsMade := n\<rparr>) = Inl (errs n)) \<longrightarrow>
      map (\<lambda>n. process (envs n) (j\<lparr>attemptsMade := n\<rparr>)) [0, 1, 2, 3] =
        [Inl (errs 0), Inl (errs 1), Inl (errs 2),
         Inr [(''success'', Bool False),
              (''error'', Str ''Job failed after maximum retries''),
              (''taskId'', (case data j of None \<Rightarrow> Undefined | Some p \<Rightarrow> get_prop p ''taskId''))]])"
  by (simp add: process_def)


theorem handler_failure_rethrown_until_third_attempt_witness:
  "dispatch failing_env (status_job 0) = Inl (OtherError ''connection refused'') \<and>
   process failing_env (status_job 0) = Inl (OtherError ''connection refused'') \<and>
   map (\<lambda>n. process failing_env (status_job n)) [0, 1, 2, 3] =
     [Inl (OtherError ''connection refused''), Inl (OtherError ''connection refused''),
      Inl (OtherError ''connection refused''),
      Inr [(''success'', Bool False),
           (''error'', Str ''Job failed after maximum retries''),
           (''taskId'', Str ''t1'')]]"
proof -
  have upd: "(status_job 0)\<lparr>attemptsMade := n\<rparr> = status_job n" for n
    by (simp add: status_job_def)
  have d: "data (status_job 0) = Some [(''taskId'', Str ''t1''), (''status'', Str ''PENDING'')]"
    by (simp add: status_job_def)
  have a: "attemptsMade (status_job 0) < 3" by (simp add: status_job_def)
  from handler_failure_rethrown_until_third_attempt
    [of failing_env "status_job 0" "OtherError ''connection refused''" "\<lambda>n. failing_env"
        "\<lambda>n. OtherError ''connection refused''"]
  show ?thesis
    using failing_dispatch a by (simp add: upd d get_prop_def)
qed


text \<open>
  The claim as stated names another result: the error text \<open>max retries exceeded\<close> and a
  \<open>jobId\<close> property. A status update that fails on its fourth delivery returns neither.
\<close>

theorem terminal_result_counterexample:
  "dispatch failing_env (status_job 3) = Inl (OtherError ''connection refused'') \<and>
   attemptsMade (status_job 3) \<ge> 3 \<and>
   process failing_env (status_job 3) =
     Inr [(''success'', Bool False),
          (''error'', Str ''Job failed after maximum retries''),
          (''taskId'', Str ''t1'')] \<and>
   process failing_env (status_job 3) \<noteq>
     Inr [(''success'', Bool False),
          (''error'', Str ''max retries exceeded''),
          (''jobId'', Str ''42''),
          (''taskId'', Str ''t1'')]"
proof -
  have d: "dispatch failing_env (status_job 3) = Inl (OtherError ''connection refused'')"
    by (rule failing_dispatch)
  have a: "attemptsMade (status_job 3) = 3"
    by (simp add: status_job_def)
  have p: "data (status_job 3) = Some [(''taskId'', Str ''t1''), (''status'', Str ''PENDING'')]"
    by (simp add: status_job_def)
  show ?thesis
    by (simp add: process_def d a p get_prop_def)
qed


subsection \<open>Malformed payloads\<close>

text \<open>
  Claim C7, as amended. A \<open>task-status-update\<close> job whose payload is an object that
  lacks \<open>taskId\<close> or \<open>status\<close> (the property is missing or falsy), or whose status
  is not a value of the \<open>TaskStatus\<close> enum, and an \<open>overdue-tasks-notification\<close> job
  whose payload is an object that lacks \<open>taskId\<close> or \<open>userId\<close>, make \<open>process\<close>
  return an object \<open>{success: false, error}\<close>. Nothing is thrown, whatever the attempt
  count and whatever the task store would do, so the queue never redelivers the job.
\<close>

theorem malformed_payload_never_retried:
  "(name j = ''task-status-update'' \<and> data j = Some p \<and>
      (\<not> truthy (get_prop p ''taskId'') \<or> \<not> truthy (get_prop p ''status'')) \<longrightarrow>
        process env j = Inr [(''success'', Bool False), (''error'', Str ''Missing required data'')]) \<and>
   (name j = ''task-status-update'' \<and> data j = Some p \<and>
      truthy (get_prop p ''taskId'') \<and> truthy (get_prop p ''status'') \<and>
      get_prop p ''status'' \<notin> set (TaskStatus_values env) \<longrightarrow>
        process env j = Inr [(''success'', Bool False), (''error'', Str ''Invalid status value'')]) \<and>
   (name j = ''overdue-tasks-notification'' \<and> data j = Some p \<and>
      (\<not> truthy (get_prop p ''taskId'') \<or> \<not> truthy (get_prop p ''userId'')) \<longrightarrow>
        process env j =
          Inr [(''success'', Bool False), (''error'', Str ''Missing required data for overdue task'')])"
  by (auto simp: process_def dispatch_def handleStatusUpdate_def handleOverdueTasks_def Let_def)

theorem malformed_payload_never_retried_witness:
  "process failing_env no_status_job =
     Inr [(''success'', Bool False), (''error'', Str ''Missing required data'')] \<and>
   process failing_env bad_status_job =
     Inr [(''success'', Bool False), (''error'', Str ''Invalid status value'')] \<and>
   process failing_env no_user_job =
     Inr [(''success'', Bool False), (''error'', Str ''Missing required data for overdue task'')]"
  using malformed_payload_never_retried
      [of no_status_job "[(''taskId'', Str ''t1'')]" failing_env]
    malformed_payload_never_retried
      [of bad_status_job "[(''taskId'', Str ''t1''), (''status'', Str ''ARCHIVED'')]" failing_env]
    malformed_payload_never_retried
      [of no_user_job "[(''taskId'', Str ''t1''), (''dueDate'', Str ''2024-01-01'')]" failing_env]
  by (simp add: no_status_job_def bad_status_job_def no_user_job_def failing_env_def get_prop_def)

text \<open>
  The claim as stated speaks of every payload that is missing the fields. A payload that is
  \<open>null\<close> or \<open>undefined\<close> has neither of them, and there the destructuring
  \<open>const {taskId, status} = job.data\<close> throws a \<open>TypeError\<close> before any test is made:
  \<open>process\<close> rethrows it on the first three deliveries, whatever the task store would do,
  and the queue redelivers the job.
\<close>

theorem null_payload_retried_counterexample:
  "name (null_status_job 0) = ''task-status-update'' \<and> data (null_status_job 0) = None \<and>
   name (null_overdue_job 0) = ''overdue-tasks-notification'' \<and> data (null_overdue_job 0) = None \<and>
   (\<forall>env. map (\<lambda>n. process env (null_status_job n)) [0, 1, 2] =
            [Inl TypeError, Inl TypeError, Inl TypeError]) \<and>
   (\<forall>env. map (\<lambda>n. process env (null_overdue_job n)) [0, 1, 2] =
            [Inl TypeError, Inl TypeError, Inl TypeError])"
  by (simp add: null_status_job_def null_overdue_job_def process_def dispatch_def
      handleStatusUpdate_def handleOverdueTasks_def)


subsection \<open>Unregistered kinds\<close>

text \<open>
  Claim C8, as amended. A job whose name is neither \<open>task-status-update\<close> nor
  \<open>overdue-tasks-notification\<close> makes \<open>process\<close> return, without throwing, the object
  \<open>{success: false, error: 'Unknown job type'}\<close>, whatever the attempt count.
\<close>

theorem unknown_kind_not_retried:
  "name j \<noteq> ''task-status-update'' \<and> name j \<noteq> ''overdue-tasks-notification'' \<longrightarrow>
     process env j = Inr [(''success'', Bool False), (''error'', Str ''Unknown job type'')]"
  by (simp add: process_def dispatch_def)

theorem unknown_kind_not_retried_witness:
  "name unknown_job \<noteq> ''task-status-update'' \<and>
   name unknown_job \<noteq> ''overdue-tasks-notification'' \<and>
   process failing_env unknown_job =
     Inr [(''success'', Bool False), (''error'', Str ''Unknown job type'')]"
  using unknown_kind_not_retried [of unknown_job failing_env]
  by (simp add: unknown_job_def)


text \<open>The claim as stated gives the error text as \<open>unknown kind\<close>; the code returns
  another text.\<close>

theorem unknown_kind_message_counterexample:
  "name unknown_job \<noteq> ''task-status-update'' \<and>
   name unknown_job \<noteq> ''overdue-tasks-notification'' \<and>
   process failing_env unknown_job \<noteq>
     Inr [(''success'', Bool False), (''error'', Str ''unknown kind'')]"
  by (simp add: unknown_job_def process_def dispatch_def)

end
